theory Spec2Isabelle
  imports Main
begin

section \<open>Values, exceptions and effects\<close>

text \<open>
  The program is the Flask application of \<^verbatim>\<open>src/main.py\<close> (lines 12 to 75) together with
  its Jinja template (lines 80 to 119). A table cell is an integer or a string; a dict
  literal of columns and a pandas DataFrame are both ordered lists of named columns
  (the names are distinct, as the keys of a dict are).
\<close>

datatype cell = IntCell int | StrCell string

type_synonym pydict = "(string \<times> cell list) list"

type_synonym dataframe = "(string \<times> cell list) list"

text \<open>
  Exceptions are values. The first three classes derive from Python's \<^verbatim>\<open>Exception\<close>;
  \<^verbatim>\<open>KeyboardInterrupt\<close> derives from \<^verbatim>\<open>BaseException\<close> only, so that
  \<^verbatim>\<open>except Exception\<close> does not catch it. \<open>exn_str\<close> is \<^verbatim>\<open>str(e)\<close>, which is what
  an f-string interpolates.
\<close>

datatype exn =
    ValueError string
  | NameError string
  | TemplateNotFound string
  | KeyboardInterrupt

fun is_Exception :: "exn \<Rightarrow> bool" where
  "is_Exception (ValueError m) = True"
| "is_Exception (NameError n) = True"
| "is_Exception (TemplateNotFound t) = True"
| "is_Exception KeyboardInterrupt = False"

fun exn_str :: "exn \<Rightarrow> string" where
  \<open>exn_str (ValueError m) = m\<close>
| \<open>exn_str (NameError n) = ''name '' @ [CHR 0x27] @ n @ [CHR 0x27] @ '' is not defined''\<close>
| \<open>exn_str (TemplateNotFound t) = t\<close>
| \<open>exn_str KeyboardInterrupt = []\<close>

text \<open>
  The only effect of the program is \<^verbatim>\<open>print\<close>: the state is the list of lines written
  to standard output so far. A computation takes that state and returns either the raised
  exception or its value, with the new state.
\<close>

type_synonym stdout = "string list"

type_synonym 'a io = "stdout \<Rightarrow> (exn + 'a) \<times> stdout"

definition returns :: "'a \<Rightarrow> 'a io" where
  "returns v out = (Inr v, out)"

definition raise :: "exn \<Rightarrow> 'a io" where
  "raise e out = (Inl e, out)"

definition from_result :: "exn + 'a \<Rightarrow> 'a io" where
  "from_result r out = (r, out)"

definition and_then :: "'a io \<Rightarrow> ('a \<Rightarrow> 'b io) \<Rightarrow> 'b io" where
  "and_then m k out =
     (case m out of
        (Inl e, out') \<Rightarrow> (Inl e, out')
      | (Inr v, out') \<Rightarrow> k v out')"

text \<open>\<^verbatim>\<open>try: body  except Exception as e: handler\<close>\<close>

definition try_except :: "'a io \<Rightarrow> (exn \<Rightarrow> 'a io) \<Rightarrow> 'a io" where
  "try_except body handler out =
     (case body out of
        (Inl e, out') \<Rightarrow> if is_Exception e then handler e out' else (Inl e, out')
      | (Inr v, out') \<Rightarrow> (Inr v, out'))"

definition print :: "string \<Rightarrow> unit io" where
  "print s out = (Inr (), out @ [s])"

section \<open>The module namespace\<close>

text \<open>
  The names bound at module level once lines 13 to 72 have run. \<^verbatim>\<open>import plotly.express as px\<close>
  and \<^verbatim>\<open>import plotly.graph_objs as go\<close> bind \<^verbatim>\<open>px\<close> and \<^verbatim>\<open>go\<close> only: an import with
  \<^verbatim>\<open>as\<close> binds the alias and nothing else, so \<^verbatim>\<open>plotly\<close> itself is not a name of the
  module (nor is it a builtin). Reading an unbound global raises \<^verbatim>\<open>NameError\<close>.
  The functions below look a module alias up where the program reads it (\<^verbatim>\<open>pd\<close>,
  \<^verbatim>\<open>px\<close>, \<^verbatim>\<open>json\<close>, \<^verbatim>\<open>plotly\<close>); the program's own functions and the names imported
  from Flask are bound, and are called directly.
\<close>

definition module_globals :: "string list" where
  "module_globals =
     [''Flask'', ''render_template'', ''jsonify'', ''request'',
      ''pd'', ''px'', ''go'', ''json'', ''requests'',
      ''app'', ''get_real_time_data'', ''index'', ''plot_to_json'', ''update_data'']"

definition global_name :: "string \<Rightarrow> unit io" where
  "global_name n = (if n \<in> set module_globals then returns () else raise (NameError n))"

section \<open>The libraries the program calls\<close>

subsection \<open>pandas\<close>

definition df_len :: "dataframe \<Rightarrow> nat" where
  "df_len df = (case df of [] \<Rightarrow> 0 | c # cs \<Rightarrow> length (snd c))"

text \<open>
  \<^verbatim>\<open>pd.DataFrame(data)\<close> on a dict of lists: the columns in the dict's order; lists of
  different lengths raise \<^verbatim>\<open>ValueError\<close>. \<^verbatim>\<open>pd.DataFrame()\<close> has no columns and no rows.
  \<^verbatim>\<open>df.empty\<close> holds when either axis has length 0.
\<close>

definition pd_DataFrame :: "pydict \<Rightarrow> exn + dataframe" where
  "pd_DataFrame d =
     (if list_all (\<lambda>c. length (snd c) = df_len d) d then Inr d
      else Inl (ValueError ''All arrays must be of the same length''))"

definition pd_DataFrame_empty :: dataframe where
  "pd_DataFrame_empty = []"

definition df_empty :: "dataframe \<Rightarrow> bool" where
  "df_empty df = (df = [] \<or> df_len df = 0)"

subsection \<open>plotly.express\<close>

text \<open>
  \<^verbatim>\<open>px.bar(df, x=..., y=..., title=...)\<close> with no colour or facet argument builds a figure
  with one bar trace, whose \<^verbatim>\<open>x\<close> and \<^verbatim>\<open>y\<close> are the two named columns, and a layout
  with the title. An argument that names no column of the frame raises \<^verbatim>\<open>ValueError\<close>
  (\<^verbatim>\<open>x\<close> is looked at before \<^verbatim>\<open>y\<close>).
\<close>

record bar_trace =
  trace_x :: "cell list"
  trace_y :: "cell list"

record figure =
  fig_data :: "bar_trace list"
  fig_title :: string

fun py_str_items :: "string list \<Rightarrow> string" where
  \<open>py_str_items [] = []\<close>
| \<open>py_str_items [n] = [CHR 0x27] @ n @ [CHR 0x27]\<close>
| \<open>py_str_items (n # m # ns) = [CHR 0x27] @ n @ [CHR 0x27] @ '', '' @ py_str_items (m # ns)\<close>

definition px_column_error :: "string \<Rightarrow> dataframe \<Rightarrow> string \<Rightarrow> string" where
  \<open>px_column_error field df arg =
     ''Value of '' @ [CHR 0x27] @ field @ [CHR 0x27]
     @ '' is not the name of a column in 'data_frame'. Expected one of [''
     @ py_str_items (map fst df) @ ''] but received: '' @ arg\<close>

definition px_bar :: "dataframe \<Rightarrow> string \<Rightarrow> string \<Rightarrow> string \<Rightarrow> exn + figure" where
  "px_bar df x y title =
     (case map_of df x of
        None \<Rightarrow> Inl (ValueError (px_column_error ''x'' df x))
      | Some xs \<Rightarrow>
          (case map_of df y of
             None \<Rightarrow> Inl (ValueError (px_column_error ''y'' df y))
           | Some ys \<Rightarrow>
               Inr \<lparr>fig_data = [\<lparr>trace_x = xs, trace_y = ys\<rparr>], fig_title = title\<rparr>))"

subsection \<open>json\<close>

text \<open>\<^verbatim>\<open>json.dumps({})\<close>: the empty object.\<close>

definition json_dumps_empty_dict :: string where
  "json_dumps_empty_dict = ''{}''"

text \<open>
  \<^verbatim>\<open>json.dumps(fig, cls=plotly.utils.PlotlyJSONEncoder)\<close> is plotly's encoding of a figure
  (an object with the fields \<^verbatim>\<open>data\<close> and \<^verbatim>\<open>layout\<close>). Its text is plotly's business, so
  the functions below take it as the parameter \<open>enc\<close>.
\<close>

type_synonym encoder = "figure \<Rightarrow> string"

subsection \<open>Flask and Jinja\<close>

text \<open>
  A view returns a string (status 200), a pair of a string and a status, or what
  \<^verbatim>\<open>jsonify\<close> makes of a dict of strings.
\<close>

datatype body = Text string | Json "(string \<times> string) list"

record response =
  status :: nat
  body :: body

definition jsonify :: "(string \<times> string) list \<Rightarrow> body" where
  "jsonify d = Json d"

text \<open>
  A template is a sequence of literal text and of \<^verbatim>\<open>{{ name | safe }}\<close> placeholders, which
  render the variable unescaped (an undefined variable renders as nothing).
\<close>

datatype segment = Lit string | Safe string

fun render_segment :: "(string \<times> string) list \<Rightarrow> segment \<Rightarrow> string" where
  "render_segment ctx (Lit s) = s"
| "render_segment ctx (Safe v) = (case map_of ctx v of None \<Rightarrow> [] | Some s \<Rightarrow> s)"

fun lines_text :: "string list \<Rightarrow> string" where
  "lines_text [] = []"
| "lines_text [l] = l"
| "lines_text (l # m # ls) = l @ [CHR 0x0A] @ lines_text (m # ls)"

text \<open>
  \<^verbatim>\<open>templates/index.html\<close>, lines 81 to 118 of the source, split at the placeholder of
  line 97. \<open>lines_text\<close> joins lines with newlines; Jinja drops the newline that ends the
  file.
\<close>

definition index_html :: "segment list" where
  \<open>index_html =
     [Lit (lines_text
        [''<!doctype html>'',
         ''<html lang="en">'',
         ''<head>'',
         ''    <meta charset="UTF-8">'',
         ''    <meta name="viewport" content="width=device-width, initial-scale=1.0">'',
         ''    <title>Data Insight Dashboard</title>'',
         ''    <script src="https://cdn.plot.ly/plotly-latest.min.js"></script>'',
         ''</head>'',
         ''<body>'',
         ''    <h1>Data Insight Dashboard</h1>'',
         ''    <div id="dashboard"></div>'',
         [],
         ''    <button onclick="updateDashboard()">Update Data</button>'',
         [],
         ''    <script>'',
         ''        // Initial load of the dashboard with embedded Plotly graph'',
         ''        var graphs_json = JSON.parse('' @ [CHR 0x27]]),
      Safe ''graphs_json'',
      Lit (lines_text
        [[CHR 0x27] @ '');'',
         ''        Plotly.newPlot('dashboard', graphs_json.data, graphs_json.layout);'',
         [],
         ''        // Function to dynamically update the dashboard'',
         ''        function updateDashboard() {'',
         ''            fetch('/update_data', {'',
         ''                method: 'POST'' @ [CHR 0x27],
         ''            })'',
         ''            .then(response => response.json())'',
         ''            .then(data => {'',
         ''                if (data.error) {'',
         ''                    alert(data.error);'',
         ''                } else {'',
         ''                    var graphs_json = JSON.parse(data.graphs_json);'',
         ''                    Plotly.newPlot('dashboard', graphs_json.data, graphs_json.layout);'',
         ''                }'',
         ''            })'',
         ''            .catch(error => console.error('Error updating dashboard:', error));'',
         ''        }'',
         ''    </script>'',
         ''</body>'',
         ''</html>''])]\<close>

definition templates :: "(string \<times> segment list) list" where
  "templates = [(''index.html'', index_html)]"

definition render_template :: "string \<Rightarrow> (string \<times> string) list \<Rightarrow> exn + string" where
  "render_template name ctx =
     (case map_of templates name of
        None \<Rightarrow> Inl (TemplateNotFound name)
      | Some t \<Rightarrow> Inr (concat (map (render_segment ctx) t)))"

section \<open>The program\<close>

subsection \<open>\<^verbatim>\<open>get_real_time_data\<close> (lines 23 to 36)\<close>

definition data :: pydict where
  "data =
     [(''metric'', [StrCell ''Sales'', StrCell ''Profit'', StrCell ''Customer Satisfaction'']),
      (''value'', [IntCell 120000, IntCell 30000, IntCell 85])]"

text \<open>
  The function with the simulated fetch of lines 26 to 29 taken as its outcome \<open>fetched\<close>:
  the dict that was fetched, or the exception that the fetch raised inside the
  \<^verbatim>\<open>try\<close>, whose body is \<open>get_real_time_data_body\<close>. The function of the source is
  the instance at the dict literal.
\<close>

definition get_real_time_data_body :: "exn + pydict \<Rightarrow> dataframe io" where
  "get_real_time_data_body fetched =
     and_then (from_result fetched) (\<lambda>d.
     and_then (global_name ''pd'') (\<lambda>_.
     from_result (pd_DataFrame d)))"

definition get_real_time_data_with :: "exn + pydict \<Rightarrow> dataframe io" where
  "get_real_time_data_with fetched =
     try_except
       (get_real_time_data_body fetched)
       (\<lambda>e.
        and_then (print (''Error fetching data: '' @ exn_str e)) (\<lambda>_.
        and_then (global_name ''pd'') (\<lambda>_.
        returns pd_DataFrame_empty)))"

definition get_real_time_data :: "dataframe io" where
  "get_real_time_data = get_real_time_data_with (Inr data)"

subsection \<open>\<^verbatim>\<open>plot_to_json\<close> (lines 48 to 61)\<close>

text \<open>
  The body of the \<^verbatim>\<open>try\<close>. In line 58 Python evaluates the callee \<^verbatim>\<open>json.dumps\<close>, then
  the argument \<^verbatim>\<open>fig\<close>, then the keyword argument \<^verbatim>\<open>plotly.utils.PlotlyJSONEncoder\<close>, and
  only then makes the call.
\<close>

definition plot_to_json_body :: "encoder \<Rightarrow> dataframe \<Rightarrow> string io" where
  "plot_to_json_body enc df =
     (if df_empty df then raise (ValueError ''DataFrame is empty'')
      else
        and_then (global_name ''px'') (\<lambda>_.
        and_then (from_result (px_bar df ''metric'' ''value'' ''Business KPI Dashboard'')) (\<lambda>fig.
        and_then (global_name ''json'') (\<lambda>_.
        and_then (global_name ''plotly'') (\<lambda>_.
        returns (enc fig))))))"

definition plot_to_json :: "encoder \<Rightarrow> dataframe \<Rightarrow> string io" where
  "plot_to_json enc df =
     try_except
       (plot_to_json_body enc df)
       (\<lambda>e.
        and_then (print (''Error generating plot: '' @ exn_str e)) (\<lambda>_.
        and_then (global_name ''json'') (\<lambda>_.
        returns json_dumps_empty_dict)))"

subsection \<open>\<^verbatim>\<open>index\<close> (lines 38 to 46)\<close>

definition index_with :: "encoder \<Rightarrow> exn + pydict \<Rightarrow> response io" where
  "index_with enc fetched =
     try_except
       (and_then (get_real_time_data_with fetched) (\<lambda>df.
        and_then (plot_to_json enc df) (\<lambda>graphs_json.
        and_then (from_result (render_template ''index.html'' [(''graphs_json'', graphs_json)]))
          (\<lambda>page.
        returns \<lparr>status = 200, body = Text page\<rparr>))))
       (\<lambda>e. returns \<lparr>status = 500, body = Text (''Error loading dashboard: '' @ exn_str e)\<rparr>)"

definition index :: "encoder \<Rightarrow> response io" where
  "index enc = index_with enc (Inr data)"

subsection \<open>\<^verbatim>\<open>update_data\<close> (lines 64 to 72)\<close>

definition update_data_with :: "encoder \<Rightarrow> exn + pydict \<Rightarrow> response io" where
  "update_data_with enc fetched =
     try_except
       (and_then (get_real_time_data_with fetched) (\<lambda>df.
        and_then (plot_to_json enc df) (\<lambda>graphs_json.
        returns \<lparr>status = 200, body = jsonify [(''graphs_json'', graphs_json)]\<rparr>)))
       (\<lambda>e. returns
          \<lparr>status = 500, body = jsonify [(''error'', ''Error updating data: '' @ exn_str e)]\<rparr>)"

definition update_data :: "encoder \<Rightarrow> response io" where
  "update_data enc = update_data_with enc (Inr data)"

text \<open>A client posting to \<^verbatim>\<open>/update_data\<close> \<open>n\<close> times in a row: the responses, in order.\<close>

fun update_data_times :: "encoder \<Rightarrow> nat \<Rightarrow> stdout \<Rightarrow> (exn + response) list \<times> stdout" where
  "update_data_times enc 0 out = ([], out)"
| "update_data_times enc (Suc n) out =
     (case update_data enc out of
        (r, out') \<Rightarrow>
          (case update_data_times enc n out' of
             (rs, out'') \<Rightarrow> (r # rs, out'')))"

section \<open>How the computations run\<close>

lemma global_name_bound:
  "global_name ''pd'' out = (Inr (), out)"
  "global_name ''px'' out = (Inr (), out)"
  "global_name ''json'' out = (Inr (), out)"
  by (simp_all add: global_name_def module_globals_def returns_def)

lemma global_name_plotly: "global_name ''plotly'' out = (Inl (NameError ''plotly''), out)"
  by (simp add: global_name_def module_globals_def raise_def)

lemma try_except_caught:
  "b out = (Inl e, out') \<Longrightarrow> is_Exception e \<Longrightarrow> try_except b h out = h e out'"
  by (simp add: try_except_def)

lemma try_except_passed:
  "b out = (Inl e, out') \<Longrightarrow> \<not> is_Exception e \<Longrightarrow> try_except b h out = (Inl e, out')"
  by (simp add: try_except_def)

lemma try_except_value:
  "b out = (Inr v, out') \<Longrightarrow> try_except b h out = (Inr v, out')"
  by (simp add: try_except_def)

lemma px_bar_raises: "px_bar df x y t = Inl e \<Longrightarrow> is_Exception e"
  by (auto simp: px_bar_def split: option.splits)

lemma pd_DataFrame_raises: "pd_DataFrame d = Inl e \<Longrightarrow> is_Exception e"
  by (auto simp: pd_DataFrame_def split: if_splits)

lemma plot_to_json_body_cases:
  "plot_to_json_body enc df out =
     (if df_empty df then (Inl (ValueError ''DataFrame is empty''), out)
      else case px_bar df ''metric'' ''value'' ''Business KPI Dashboard'' of
             Inl e \<Rightarrow> (Inl e, out)
           | Inr fig \<Rightarrow> (Inl (NameError ''plotly''), out))"
  by (simp add: plot_to_json_body_def and_then_def from_result_def raise_def
      global_name_bound global_name_plotly split: sum.splits)

lemma plot_to_json_body_raises:
  "\<exists>e. is_Exception e \<and> plot_to_json_body enc df out = (Inl e, out)"
  by (auto simp: plot_to_json_body_cases dest: px_bar_raises split: sum.splits)

lemma plot_to_json_handler:
  "and_then (print s) (\<lambda>_. and_then (global_name ''json'') (\<lambda>_. returns json_dumps_empty_dict)) out
     = (Inr json_dumps_empty_dict, out @ [s])"
  by (simp add: and_then_def print_def global_name_bound returns_def)

lemma plot_to_json_caught:
  assumes "plot_to_json_body enc df out = (Inl e, out')" and "is_Exception e"
  shows "plot_to_json enc df out =
           (Inr json_dumps_empty_dict, out' @ [''Error generating plot: '' @ exn_str e])"
  unfolding plot_to_json_def
  by (simp only: try_except_caught [where b = "plot_to_json_body enc df", OF assms]
      plot_to_json_handler)

lemma plot_to_json_fst: "fst (plot_to_json enc df out) = Inr json_dumps_empty_dict"
proof -
  obtain e where "is_Exception e" and "plot_to_json_body enc df out = (Inl e, out)"
    using plot_to_json_body_raises by blast
  then show ?thesis by (simp only: plot_to_json_caught fst_conv)
qed

lemma plot_to_json_snd: "\<exists>l. snd (plot_to_json enc df out) = out @ [l]"
proof -
  obtain e where "is_Exception e" and "plot_to_json_body enc df out = (Inl e, out)"
    using plot_to_json_body_raises by blast
  then show ?thesis by (simp only: plot_to_json_caught snd_conv) blast
qed

lemma plot_to_json_run:
  "\<exists>l. plot_to_json enc df out = (Inr json_dumps_empty_dict, out @ [l])"
  using plot_to_json_fst [of enc df out] plot_to_json_snd [of enc df out]
  by (metis prod.collapse)

lemma get_real_time_data_handler:
  "and_then (print s) (\<lambda>_. and_then (global_name ''pd'') (\<lambda>_. returns pd_DataFrame_empty)) out
     = (Inr pd_DataFrame_empty, out @ [s])"
  by (simp add: and_then_def print_def global_name_bound returns_def)

lemma get_real_time_data_body_cases:
  "get_real_time_data_body fetched out =
     (case fetched of Inl e \<Rightarrow> (Inl e, out) | Inr d \<Rightarrow> (pd_DataFrame d, out))"
  by (cases "fetched"; cases "pd_DataFrame (projr fetched)")
     (simp_all add: get_real_time_data_body_def and_then_def from_result_def global_name_bound)

lemma get_real_time_data_caught:
  assumes "get_real_time_data_body fetched out = (Inl e, out')" and "is_Exception e"
  shows "get_real_time_data_with fetched out =
           (Inr pd_DataFrame_empty, out' @ [''Error fetching data: '' @ exn_str e])"
  unfolding get_real_time_data_with_def
  by (simp only: try_except_caught [where b = "get_real_time_data_body fetched", OF assms]
      get_real_time_data_handler)

lemma get_real_time_data_fetched:
  assumes "pd_DataFrame d = Inr df"
  shows "get_real_time_data_with (Inr d) out = (Inr df, out)"
  unfolding get_real_time_data_with_def
  by (rule try_except_value) (simp add: get_real_time_data_body_cases assms)

lemma pd_DataFrame_data: "pd_DataFrame data = Inr data"
  by (simp add: pd_DataFrame_def data_def df_len_def)

lemma get_real_time_data_run: "get_real_time_data out = (Inr data, out)"
  unfolding get_real_time_data_def by (rule get_real_time_data_fetched) (rule pd_DataFrame_data)

lemma get_real_time_data_with_run:
  assumes "case fetched of Inl e \<Rightarrow> is_Exception e | Inr d \<Rightarrow> True"
  shows "\<exists>df out'. get_real_time_data_with fetched out = (Inr df, out')"
proof (cases fetched)
  case (Inl e)
  with assms have "is_Exception e" by simp
  moreover have "get_real_time_data_body fetched out = (Inl e, out)"
    by (simp add: get_real_time_data_body_cases Inl)
  ultimately show ?thesis using get_real_time_data_caught by blast
next
  case (Inr d)
  show ?thesis
  proof (cases "pd_DataFrame d")
    case (Inl e)
    then have "is_Exception e" by (rule pd_DataFrame_raises)
    moreover have "get_real_time_data_body fetched out = (Inl e, out)"
      by (simp add: get_real_time_data_body_cases Inr Inl)
    ultimately show ?thesis using get_real_time_data_caught by blast
  next
    case (Inr df)
    then show ?thesis using get_real_time_data_fetched \<open>fetched = Inr d\<close> by blast
  qed
qed

lemma render_template_index:
  "render_template ''index.html'' ctx = Inr (concat (map (render_segment ctx) index_html))"
  by (simp add: render_template_def templates_def)

lemma index_with_run:
  assumes "get_real_time_data_with fetched out = (Inr df, out1)"
  shows "\<exists>page. render_template ''index.html'' [(''graphs_json'', json_dumps_empty_dict)] = Inr page
           \<and> fst (index_with enc fetched out) = Inr \<lparr>status = 200, body = Text page\<rparr>"
proof -
  obtain l where p: "plot_to_json enc df out1 = (Inr json_dumps_empty_dict, out1 @ [l])"
    using plot_to_json_run by blast
  let ?page = "concat (map (render_segment [(''graphs_json'', json_dumps_empty_dict)]) index_html)"
  have "index_with enc fetched out = (Inr \<lparr>status = 200, body = Text ?page\<rparr>, out1 @ [l])"
    unfolding index_with_def
    by (rule try_except_value)
       (simp add: and_then_def assms p render_template_index from_result_def returns_def)
  then show ?thesis by (simp add: render_template_index)
qed

lemma update_data_with_run:
  assumes "get_real_time_data_with fetched out = (Inr df, out1)"
  shows "\<exists>l. update_data_with enc fetched out =
           (Inr \<lparr>status = 200, body = Json [(''graphs_json'', json_dumps_empty_dict)]\<rparr>, out1 @ [l])"
proof -
  obtain l where p: "plot_to_json enc df out1 = (Inr json_dumps_empty_dict, out1 @ [l])"
    using plot_to_json_run by blast
  have "update_data_with enc fetched out =
          (Inr \<lparr>status = 200, body = Json [(''graphs_json'', json_dumps_empty_dict)]\<rparr>, out1 @ [l])"
    unfolding update_data_with_def
    by (rule try_except_value)
       (simp add: and_then_def assms p returns_def jsonify_def)
  then show ?thesis by blast
qed

lemma update_data_fst:
  "fst (update_data enc out) =
     Inr \<lparr>status = 200, body = Json [(''graphs_json'', json_dumps_empty_dict)]\<rparr>"
  using update_data_with_run [OF get_real_time_data_run [unfolded get_real_time_data_def], of enc out]
  unfolding update_data_def by auto

lemma update_data_times_fst:
  "fst (update_data_times enc n out) =
     replicate n (Inr \<lparr>status = 200, body = Json [(''graphs_json'', json_dumps_empty_dict)]\<rparr>)"
proof (induction n arbitrary: out)
  case 0
  show ?case by simp
next
  case (Suc n)
  obtain r out' where u: "update_data enc out = (r, out')" by (cases "update_data enc out")
  then have r: "r = Inr \<lparr>status = 200, body = Json [(''graphs_json'', json_dumps_empty_dict)]\<rparr>"
    using update_data_fst [of enc out] by simp
  obtain rs out'' where t: "update_data_times enc n out' = (rs, out'')"
    by (cases "update_data_times enc n out'")
  then have "rs = replicate n (Inr \<lparr>status = 200, body = Json [(''graphs_json'', json_dumps_empty_dict)]\<rparr>)"
    using Suc.IH [of out'] by simp
  then show ?case by (simp add: u t r)
qed

lemma get_real_time_data_with_cases:
  "(\<exists>df out'. get_real_time_data_with fetched out = (Inr df, out'))
   \<or> (\<exists>e. \<not> is_Exception e \<and> fetched = Inl e
          \<and> get_real_time_data_with fetched out = (Inl e, out))"
proof (cases "case fetched of Inl e \<Rightarrow> is_Exception e | Inr d \<Rightarrow> True")
  case True
  then show ?thesis using get_real_time_data_with_run by blast
next
  case False
  then obtain e where e: "fetched = Inl e" "\<not> is_Exception e"
    by (cases fetched) auto
  then have "get_real_time_data_body fetched out = (Inl e, out)"
    by (simp add: get_real_time_data_body_cases)
  then have "get_real_time_data_with fetched out = (Inl e, out)"
    unfolding get_real_time_data_with_def using e(2) by (rule try_except_passed)
  with e show ?thesis by blast
qed

lemma update_data_with_cases:
  "(\<exists>l out'. update_data_with enc fetched out =
       (Inr \<lparr>status = 200, body = Json [(''graphs_json'', json_dumps_empty_dict)]\<rparr>, out' @ [l]))
   \<or> (\<exists>e. \<not> is_Exception e \<and> fetched = Inl e
          \<and> update_data_with enc fetched out = (Inl e, out))"
  using get_real_time_data_with_cases [of fetched out]
proof (elim disjE exE conjE)
  fix df out'
  assume "get_real_time_data_with fetched out = (Inr df, out')"
  from update_data_with_run [OF this, of enc] show ?thesis by blast
next
  fix e
  assume e: "\<not> is_Exception e" "fetched = Inl e"
    and g: "get_real_time_data_with fetched out = (Inl e, out)"
  have "update_data_with enc fetched out = (Inl e, out)"
    unfolding update_data_with_def
    by (rule try_except_passed [OF _ e(1)]) (simp add: and_then_def g)
  with e show ?thesis by blast
qed

lemma get_real_time_data_with_interrupt:
  "get_real_time_data_with (Inl KeyboardInterrupt) out = (Inl KeyboardInterrupt, out)"
  unfolding get_real_time_data_with_def
  by (rule try_except_passed) (simp_all add: get_real_time_data_body_cases)

section \<open>The claims\<close>

text \<open>
  C1. The claim: for every valid non-empty table, the string that \<^verbatim>\<open>plot_to_json\<close> returns
  holds the names and values of the table, in order. On the table of the program itself
  \<^verbatim>\<open>px.bar\<close> does build the figure with the three names and the three values, but line 58
  then reads the unbound name \<^verbatim>\<open>plotly\<close>: the handler prints the \<^verbatim>\<open>NameError\<close> and
  the function returns the empty object, whatever the encoder would have produced.
\<close>

theorem plot_to_json_loses_the_chart:
  \<open>px_bar data ''metric'' ''value'' ''Business KPI Dashboard'' =
     Inr \<lparr>fig_data =
            [\<lparr>trace_x = [StrCell ''Sales'', StrCell ''Profit'', StrCell ''Customer Satisfaction''],
              trace_y = [IntCell 120000, IntCell 30000, IntCell 85]\<rparr>],
          fig_title = ''Business KPI Dashboard''\<rparr>
   \<and> \<not> df_empty data
   \<and> plot_to_json enc data out =
       (Inr ''{}'', out @ [''Error generating plot: name 'plotly' is not defined''])\<close>
proof -
  have f: \<open>px_bar data ''metric'' ''value'' ''Business KPI Dashboard'' =
     Inr \<lparr>fig_data =
            [\<lparr>trace_x = [StrCell ''Sales'', StrCell ''Profit'', StrCell ''Customer Satisfaction''],
              trace_y = [IntCell 120000, IntCell 30000, IntCell 85]\<rparr>],
          fig_title = ''Business KPI Dashboard''\<rparr>\<close>
    by (simp add: px_bar_def data_def)
  have n: "\<not> df_empty data" by (simp add: df_empty_def df_len_def data_def)
  have "plot_to_json_body enc data out = (Inl (NameError ''plotly''), out)"
    by (simp add: plot_to_json_body_cases n f)
  then have "plot_to_json enc data out =
      (Inr json_dumps_empty_dict, out @ [''Error generating plot: '' @ exn_str (NameError ''plotly'')])"
    by (rule plot_to_json_caught) simp
  then have \<open>plot_to_json enc data out =
       (Inr ''{}'', out @ [''Error generating plot: name 'plotly' is not defined''])\<close>
    by (simp add: json_dumps_empty_dict_def)
  with f n show ?thesis by blast
qed

text \<open>
  C2. The claim: on success \<^verbatim>\<open>update_data\<close> answers with a JSON body that has the key
  \<^verbatim>\<open>graphs_json\<close>, and the payload under it encodes Sales 120000, Profit 30000 and
  Customer Satisfaction 85. The key is there and the status is 200, but the payload is the
  empty object for every encoder: the values were lost in \<^verbatim>\<open>plot_to_json\<close> (see C1).
\<close>

theorem update_data_payload_is_empty_object:
  "fst (update_data enc out) =
     Inr \<lparr>status = 200, body = Json [(''graphs_json'', ''{}'')]\<rparr>"
  using update_data_fst [of enc out] by (simp only: json_dumps_empty_dict_def)

text \<open>
  C3. For an empty table \<^verbatim>\<open>plot_to_json\<close> returns the empty object and raises nothing:
  the \<^verbatim>\<open>ValueError\<close> of line 52 is caught, printed, and replaced by \<^verbatim>\<open>json.dumps({})\<close>.
\<close>

theorem plot_to_json_empty_table:
  assumes "df_empty df"
  shows "plot_to_json enc df out =
           (Inr json_dumps_empty_dict, out @ [''Error generating plot: DataFrame is empty''])"
proof -
  have "plot_to_json_body enc df out = (Inl (ValueError ''DataFrame is empty''), out)"
    using assms by (simp add: plot_to_json_body_cases)
  then have "plot_to_json enc df out =
      (Inr json_dumps_empty_dict,
       out @ [''Error generating plot: '' @ exn_str (ValueError ''DataFrame is empty'')])"
    by (rule plot_to_json_caught) simp
  then show ?thesis by simp
qed

theorem plot_to_json_empty_table_witness:
  "df_empty pd_DataFrame_empty
   \<and> plot_to_json (\<lambda>fig. ''chart'') pd_DataFrame_empty [] =
       (Inr ''{}'', [''Error generating plot: DataFrame is empty''])"
proof -
  have e: "df_empty pd_DataFrame_empty" by (simp add: df_empty_def pd_DataFrame_empty_def)
  show ?thesis
    using e plot_to_json_empty_table [OF e, of "\<lambda>fig. ''chart''" "[]"]
    by (simp add: json_dumps_empty_dict_def)
qed

text \<open>
  C4. The claim: with the table of the program, \<^verbatim>\<open>index\<close> answers 200 and the chart in the
  page is an object with the fields \<^verbatim>\<open>data\<close> and \<^verbatim>\<open>layout\<close>, one series of three points.
  The status is 200, but what the template receives as \<^verbatim>\<open>graphs_json\<close> is the empty
  object, for every encoder (see C1).
\<close>

theorem index_embeds_empty_object:
  "\<exists>page. render_template ''index.html'' [(''graphs_json'', ''{}'')] = Inr page
     \<and> fst (index enc out) = Inr \<lparr>status = 200, body = Text page\<rparr>"
  using index_with_run [OF get_real_time_data_run [unfolded get_real_time_data_def], of enc]
  unfolding index_def by (simp only: json_dumps_empty_dict_def)

text \<open>
  C5. When the body of the \<^verbatim>\<open>try\<close> in \<^verbatim>\<open>get_real_time_data\<close> raises an exception that
  \<^verbatim>\<open>except Exception\<close> catches, \<^verbatim>\<open>index\<close> still answers 200 and the page is the template
  rendered with the empty object.
\<close>

theorem index_on_acquisition_failure:
  assumes "get_real_time_data_body fetched out = (Inl e, out')" and "is_Exception e"
  shows "\<exists>page. render_template ''index.html'' [(''graphs_json'', json_dumps_empty_dict)] = Inr page
           \<and> fst (index_with enc fetched out) = Inr \<lparr>status = 200, body = Text page\<rparr>"
  using index_with_run [OF get_real_time_data_caught [OF assms]] .

theorem index_on_acquisition_failure_witness:
  "get_real_time_data_body (Inr [(''metric'', [StrCell ''Sales'']), (''value'', [])]) [] =
     (Inl (ValueError ''All arrays must be of the same length''), [])
   \<and> is_Exception (ValueError ''All arrays must be of the same length'')
   \<and> (\<exists>page. render_template ''index.html'' [(''graphs_json'', ''{}'')] = Inr page
         \<and> fst (index_with (\<lambda>fig. ''chart'')
                  (Inr [(''metric'', [StrCell ''Sales'']), (''value'', [])]) []) =
             Inr \<lparr>status = 200, body = Text page\<rparr>)"
proof -
  have b: "get_real_time_data_body (Inr [(''metric'', [StrCell ''Sales'']), (''value'', [])]) [] =
     (Inl (ValueError ''All arrays must be of the same length''), [])"
    by (simp add: get_real_time_data_body_cases pd_DataFrame_def df_len_def)
  have x: "is_Exception (ValueError ''All arrays must be of the same length'')" by simp
  show ?thesis
    using b x index_on_acquisition_failure [OF b x, of "\<lambda>fig. ''chart''"]
    by (simp only: json_dumps_empty_dict_def)
qed

text \<open>
  C6. \<^verbatim>\<open>get_real_time_data\<close> always returns a table: as written it returns the table of
  the three metrics and prints nothing; when the body of its \<^verbatim>\<open>try\<close> raises an exception
  that \<^verbatim>\<open>except Exception\<close> catches, it prints the diagnostic and returns the empty
  DataFrame instead of raising.
\<close>

theorem get_real_time_data_always_a_table:
  "get_real_time_data out = (Inr data, out)
   \<and> (\<forall>fetched e out'.
         get_real_time_data_body fetched out = (Inl e, out') \<and> is_Exception e \<longrightarrow>
         get_real_time_data_with fetched out =
           (Inr pd_DataFrame_empty, out' @ [''Error fetching data: '' @ exn_str e]))"
  using get_real_time_data_run get_real_time_data_caught by blast

theorem get_real_time_data_always_a_table_witness:
  "get_real_time_data_body (Inl (ValueError ''connection refused'')) [] =
     (Inl (ValueError ''connection refused''), [])
   \<and> is_Exception (ValueError ''connection refused'')
   \<and> get_real_time_data [] = (Inr data, [])
   \<and> get_real_time_data_with (Inl (ValueError ''connection refused'')) [] =
       (Inr [], [''Error fetching data: connection refused''])"
proof -
  have b: "get_real_time_data_body (Inl (ValueError ''connection refused'')) [] =
     (Inl (ValueError ''connection refused''), [])"
    by (simp add: get_real_time_data_body_cases)
  have x: "is_Exception (ValueError ''connection refused'')" by simp
  from get_real_time_data_always_a_table [of "[]"]
  have g: "get_real_time_data [] = (Inr data, [])"
    and w: "\<And>fetched e out'.
         get_real_time_data_body fetched [] = (Inl e, out') \<Longrightarrow> is_Exception e \<Longrightarrow>
         get_real_time_data_with fetched [] =
           (Inr pd_DataFrame_empty, out' @ [''Error fetching data: '' @ exn_str e])"
    by blast+
  from w [OF b x] have "get_real_time_data_with (Inl (ValueError ''connection refused'')) [] =
       (Inr [], [''Error fetching data: connection refused''])"
    by (simp add: pd_DataFrame_empty_def)
  with b x g show ?thesis by blast
qed

text \<open>
  C7. The response of \<^verbatim>\<open>update_data\<close> does not depend on the state it starts from (what
  earlier requests printed), and \<open>n\<close> calls in a row give \<open>n\<close> times the same response, so
  the same \<^verbatim>\<open>graphs_json\<close> payload.
\<close>

theorem update_data_idempotent:
  "fst (update_data enc out1) = fst (update_data enc out2)
   \<and> fst (update_data_times enc n out) = replicate n (fst (update_data enc out))"
proof
  show "fst (update_data enc out1) = fst (update_data enc out2)"
    by (simp only: update_data_fst)
next
  have "fst (update_data_times enc n out) =
      replicate n (Inr \<lparr>status = 200, body = Json [(''graphs_json'', json_dumps_empty_dict)]\<rparr>)"
    by (rule update_data_times_fst)
  then show "fst (update_data_times enc n out) = replicate n (fst (update_data enc out))"
    by (simp only: update_data_fst)
qed

text \<open>
  C8. \<^verbatim>\<open>plot_to_json\<close> returns the same string for an empty table as for a non-empty table
  on which its body raises: both are the empty object. Only the printed diagnostic tells
  the two apart.
\<close>

theorem plot_to_json_conflates_empty_and_error:
  assumes "df_empty df1"
    and "\<not> df_empty df2"
    and "plot_to_json_body enc df2 out2 = (Inl e, out2')"
  shows "fst (plot_to_json enc df1 out1) = fst (plot_to_json enc df2 out2)
       \<and> plot_to_json enc df1 out1 =
           (Inr ''{}'', out1 @ [''Error generating plot: DataFrame is empty''])
       \<and> plot_to_json enc df2 out2 =
           (Inr ''{}'', out2' @ [''Error generating plot: '' @ exn_str e])"
proof -
  have "plot_to_json_body enc df1 out1 = (Inl (ValueError ''DataFrame is empty''), out1)"
    using assms(1) by (simp add: plot_to_json_body_cases)
  then have "plot_to_json enc df1 out1 =
      (Inr json_dumps_empty_dict,
       out1 @ [''Error generating plot: '' @ exn_str (ValueError ''DataFrame is empty'')])"
    by (rule plot_to_json_caught) simp
  then have one: "plot_to_json enc df1 out1 =
      (Inr ''{}'', out1 @ [''Error generating plot: DataFrame is empty''])"
    by (simp add: json_dumps_empty_dict_def)
  have "is_Exception e"
    using plot_to_json_body_raises [of enc df2 out2] assms(3) by auto
  with assms(3) have "plot_to_json enc df2 out2 =
      (Inr json_dumps_empty_dict, out2' @ [''Error generating plot: '' @ exn_str e])"
    by (rule plot_to_json_caught)
  then have two: "plot_to_json enc df2 out2 =
      (Inr ''{}'', out2' @ [''Error generating plot: '' @ exn_str e])"
    by (simp only: json_dumps_empty_dict_def)
  from one two show ?thesis by simp
qed

theorem plot_to_json_conflates_empty_and_error_witness:
  "df_empty []
   \<and> \<not> df_empty [(''name'', [StrCell ''Sales''])]
   \<and> plot_to_json_body (\<lambda>fig. ''chart'') [(''name'', [StrCell ''Sales''])] [] =
       (Inl (ValueError (px_column_error ''x'' [(''name'', [StrCell ''Sales''])] ''metric'')), [])
   \<and> fst (plot_to_json (\<lambda>fig. ''chart'') [] []) =
       fst (plot_to_json (\<lambda>fig. ''chart'') [(''name'', [StrCell ''Sales''])] [])
   \<and> fst (plot_to_json (\<lambda>fig. ''chart'') [] []) = Inr ''{}''"
proof -
  have a: "df_empty []" by (simp add: df_empty_def)
  have b: "\<not> df_empty [(''name'', [StrCell ''Sales''])]"
    by (simp add: df_empty_def df_len_def)
  have c: "plot_to_json_body (\<lambda>fig. ''chart'') [(''name'', [StrCell ''Sales''])] [] =
       (Inl (ValueError (px_column_error ''x'' [(''name'', [StrCell ''Sales''])] ''metric'')), [])"
    using b by (simp add: plot_to_json_body_cases px_bar_def)
  from plot_to_json_conflates_empty_and_error [OF a b c, of "[]"]
  have "fst (plot_to_json (\<lambda>fig. ''chart'') [] []) =
          fst (plot_to_json (\<lambda>fig. ''chart'') [(''name'', [StrCell ''Sales''])] [])"
    and "fst (plot_to_json (\<lambda>fig. ''chart'') [] []) = Inr ''{}''"
    by simp_all
  with a b c show ?thesis by blast
qed

text \<open>
  C9. For every DataFrame \<^verbatim>\<open>plot_to_json\<close> returns a string and raises nothing: whatever
  its body raises is an \<^verbatim>\<open>Exception\<close>, is caught, and is replaced by the empty object;
  this includes the \<^verbatim>\<open>NameError\<close> that line 58 raises whenever \<^verbatim>\<open>px.bar\<close> succeeded.
\<close>

theorem plot_to_json_never_raises:
  "fst (plot_to_json enc df out) = Inr ''{}''
   \<and> (\<forall>e out'. plot_to_json_body enc df out = (Inl e, out') \<longrightarrow>
         is_Exception e
         \<and> plot_to_json enc df out =
             (Inr ''{}'', out' @ [''Error generating plot: '' @ exn_str e]))
   \<and> (\<forall>fig. \<not> df_empty df
           \<and> px_bar df ''metric'' ''value'' ''Business KPI Dashboard'' = Inr fig \<longrightarrow>
         plot_to_json_body enc df out = (Inl (NameError ''plotly''), out))"
proof (intro conjI allI impI)
  show "fst (plot_to_json enc df out) = Inr ''{}''"
    by (simp only: plot_to_json_fst json_dumps_empty_dict_def)
next
  fix e out'
  assume b: "plot_to_json_body enc df out = (Inl e, out')"
  then show x: "is_Exception e"
    using plot_to_json_body_raises [of enc df out] by auto
  from plot_to_json_caught [OF b x]
  show "plot_to_json enc df out =
          (Inr ''{}'', out' @ [''Error generating plot: '' @ exn_str e])"
    by (simp only: json_dumps_empty_dict_def)
next
  fix fig
  assume "\<not> df_empty df \<and> px_bar df ''metric'' ''value'' ''Business KPI Dashboard'' = Inr fig"
  then show "plot_to_json_body enc df out = (Inl (NameError ''plotly''), out)"
    by (simp add: plot_to_json_body_cases)
qed

theorem plot_to_json_never_raises_witness:
  "\<not> df_empty data
   \<and> px_bar data ''metric'' ''value'' ''Business KPI Dashboard'' =
       Inr \<lparr>fig_data = [\<lparr>trace_x = the (map_of data ''metric''),
                          trace_y = the (map_of data ''value'')\<rparr>],
            fig_title = ''Business KPI Dashboard''\<rparr>
   \<and> plot_to_json_body (\<lambda>fig. ''chart'') data [] = (Inl (NameError ''plotly''), [])
   \<and> is_Exception (NameError ''plotly'')
   \<and> plot_to_json (\<lambda>fig. ''chart'') data [] =
       (Inr ''{}'', [''Error generating plot: '' @ exn_str (NameError ''plotly'')])"
proof -
  have n: "\<not> df_empty data" by (simp add: df_empty_def df_len_def data_def)
  have f: "px_bar data ''metric'' ''value'' ''Business KPI Dashboard'' =
       Inr \<lparr>fig_data = [\<lparr>trace_x = the (map_of data ''metric''),
                          trace_y = the (map_of data ''value'')\<rparr>],
            fig_title = ''Business KPI Dashboard''\<rparr>"
    by (simp add: px_bar_def data_def)
  note t = plot_to_json_never_raises [of "\<lambda>fig. ''chart''" data "[]"]
  from t n f have b: "plot_to_json_body (\<lambda>fig. ''chart'') data [] = (Inl (NameError ''plotly''), [])"
    by blast
  from t b have "is_Exception (NameError ''plotly'')
     \<and> plot_to_json (\<lambda>fig. ''chart'') data [] =
       (Inr ''{}'', [] @ [''Error generating plot: '' @ exn_str (NameError ''plotly'')])"
    by blast
  with n f b show ?thesis by simp
qed

text \<open>
  C10. \<^verbatim>\<open>update_data\<close> never takes its \<^verbatim>\<open>except\<close> branch. As written it answers 200
  with a body whose only key is \<^verbatim>\<open>graphs_json\<close>. Whatever the fetch does, every response
  it returns is of that form, since \<^verbatim>\<open>get_real_time_data\<close> and \<^verbatim>\<open>plot_to_json\<close> turn every
  \<^verbatim>\<open>Exception\<close> into a value; what it can raise instead is an exception of the fetch that
  \<^verbatim>\<open>except Exception\<close> does not catch, and that one passes its own handler too.
\<close>

theorem update_data_error_branch_unreachable:
  "(\<exists>g l. update_data enc out =
            (Inr \<lparr>status = 200, body = Json [(''graphs_json'', g)]\<rparr>, out @ [l]))
   \<and> (\<forall>fetched r out'.
         update_data_with enc fetched out = (Inr r, out') \<longrightarrow>
         status r = 200 \<and> (\<exists>g. body r = Json [(''graphs_json'', g)]))
   \<and> (\<forall>fetched e out'.
         update_data_with enc fetched out = (Inl e, out') \<longrightarrow>
         fetched = Inl e \<and> \<not> is_Exception e)"
proof (intro conjI allI impI)
  show "\<exists>g l. update_data enc out =
            (Inr \<lparr>status = 200, body = Json [(''graphs_json'', g)]\<rparr>, out @ [l])"
    using update_data_with_run [OF get_real_time_data_run [unfolded get_real_time_data_def], of enc out]
    unfolding update_data_def by blast
next
  fix fetched r out'
  assume "update_data_with enc fetched out = (Inr r, out')"
  then have "r = \<lparr>status = 200, body = Json [(''graphs_json'', json_dumps_empty_dict)]\<rparr>"
    using update_data_with_cases [of enc fetched out] by auto
  then show "status r = 200" and "\<exists>g. body r = Json [(''graphs_json'', g)]" by simp_all
next
  fix fetched e out'
  assume "update_data_with enc fetched out = (Inl e, out')"
  then show "fetched = Inl e" and "\<not> is_Exception e"
    using update_data_with_cases [of enc fetched out] by auto
qed

theorem update_data_error_branch_unreachable_witness:
  "update_data_with (\<lambda>fig. ''chart'') (Inl (ValueError ''connection refused'')) [] =
     (Inr \<lparr>status = 200, body = Json [(''graphs_json'', ''{}'')]\<rparr>,
      [''Error fetching data: connection refused'',
       ''Error generating plot: DataFrame is empty''])
   \<and> status \<lparr>status = 200, body = Json [(''graphs_json'', ''{}'')]\<rparr> = 200
   \<and> (\<exists>g. body \<lparr>status = 200, body = Json [(''graphs_json'', ''{}'')]\<rparr> =
            Json [(''graphs_json'', g)])
   \<and> (\<exists>g l. update_data (\<lambda>fig. ''chart'') [] =
            (Inr \<lparr>status = 200, body = Json [(''graphs_json'', g)]\<rparr>, [l]))"
proof -
  have g: "get_real_time_data_with (Inl (ValueError ''connection refused'')) [] =
      (Inr pd_DataFrame_empty, [] @ [''Error fetching data: '' @ exn_str (ValueError ''connection refused'')])"
    by (rule get_real_time_data_caught) (simp_all add: get_real_time_data_body_cases)
  have p: "plot_to_json (\<lambda>fig. ''chart'') pd_DataFrame_empty [''Error fetching data: connection refused''] =
      (Inr json_dumps_empty_dict, [''Error fetching data: connection refused''] @
         [''Error generating plot: '' @ exn_str (ValueError ''DataFrame is empty'')])"
    by (rule plot_to_json_caught)
       (simp_all add: plot_to_json_body_cases df_empty_def pd_DataFrame_empty_def)
  have u: "update_data_with (\<lambda>fig. ''chart'') (Inl (ValueError ''connection refused'')) [] =
     (Inr \<lparr>status = 200, body = Json [(''graphs_json'', ''{}'')]\<rparr>,
      [''Error fetching data: connection refused'',
       ''Error generating plot: DataFrame is empty''])"
    unfolding update_data_with_def
    by (rule try_except_value)
       (use g p in \<open>simp add: and_then_def returns_def jsonify_def json_dumps_empty_dict_def\<close>)
  note t = update_data_error_branch_unreachable [of "\<lambda>fig. ''chart''" "[]"]
  from t u have "status \<lparr>status = 200, body = Json [(''graphs_json'', ''{}'')]\<rparr> = 200
    \<and> (\<exists>g. body \<lparr>status = 200, body = Json [(''graphs_json'', ''{}'')]\<rparr> =
            Json [(''graphs_json'', g)])"
    by blast
  moreover from t have "\<exists>g l. update_data (\<lambda>fig. ''chart'') [] =
            (Inr \<lparr>status = 200, body = Json [(''graphs_json'', g)]\<rparr>, [l])"
    by simp
  ultimately show ?thesis using u by blast
qed

end
